theory Spec2Isabelle
  imports Complex_Main "HOL-Library.Word"
begin

unbundle bit_operations_syntax

section \<open>JavaScript values used by the handlers\<close>

text \<open>
  The service is two Express applications over the pdf-lib library: the compact
  \<^verbatim>\<open>src/index.js\<close> and the longer server file (\<^verbatim>\<open>src/unnamed/part_000\<close>, which
  also carries \<^verbatim>\<open>utils/pdfMetadata.js\<close>). Definitions that embed the longer file keep
  the source's names; the ones that embed \<^verbatim>\<open>src/index.js\<close> carry the suffix
  \<open>_index\<close>. Helpers whose text is the same in both files are shared.

  Strings are \<^typ>\<open>string\<close>; a \<^typ>\<open>char\<close> stands for one code unit below 256.
  A multipart body field is \<^typ>\<open>string option\<close>: \<open>None\<close> is \<^verbatim>\<open>undefined\<close>.
  A number is its exact value, \<open>NaN\<close> or an infinity; the rounding to binary64 is
  not part of the model (it is monotone and fixes 0 and 1, so it commutes with the
  clamp below), and \<open>-0\<close> is identified with \<open>0\<close>.
\<close>

datatype jsnum = NaN | NegInf | Num rat | PosInf

datatype js_error =
    TypeError string
  | ReferenceError string
  | RangeError string
  | LibraryError string

fun message :: "js_error \<Rightarrow> string" where
  "message (TypeError m) = m"
| "message (ReferenceError m) = m"
| "message (RangeError m) = m"
| "message (LibraryError m) = m"

definition truthy :: "string option \<Rightarrow> bool" where
  \<comment> \<open>ToBoolean of a value that is \<^verbatim>\<open>undefined\<close> or a string\<close>
  "truthy v = (case v of None \<Rightarrow> False | Some s \<Rightarrow> s \<noteq> [])"

definition to_string :: "string option \<Rightarrow> string" where
  \<comment> \<open>ToString of a value that is \<^verbatim>\<open>undefined\<close> or a string\<close>
  "to_string v = (case v of None \<Rightarrow> ''undefined'' | Some s \<Rightarrow> s)"

definition num_truthy :: "jsnum \<Rightarrow> bool" where
  "num_truthy x = (x \<noteq> NaN \<and> x \<noteq> Num 0)"

definition isNaN :: "jsnum \<Rightarrow> bool" where
  "isNaN x = (x = NaN)"

fun js_max :: "jsnum \<Rightarrow> jsnum \<Rightarrow> jsnum" where
  "js_max NaN y = NaN"
| "js_max x NaN = NaN"
| "js_max PosInf y = PosInf"
| "js_max x PosInf = PosInf"
| "js_max NegInf y = y"
| "js_max x NegInf = x"
| "js_max (Num a) (Num b) = Num (max a b)"

fun js_min :: "jsnum \<Rightarrow> jsnum \<Rightarrow> jsnum" where
  "js_min NaN y = NaN"
| "js_min x NaN = NaN"
| "js_min NegInf y = NegInf"
| "js_min x NegInf = NegInf"
| "js_min PosInf y = y"
| "js_min x PosInf = x"
| "js_min (Num a) (Num b) = Num (min a b)"

fun js_times :: "jsnum \<Rightarrow> rat \<Rightarrow> jsnum" where
  \<comment> \<open>multiplication by a positive finite constant\<close>
  "js_times (Num a) c = Num (a * c)"
| "js_times x c = x"

subsection \<open>Characters and prefixes\<close>

definition code :: "char \<Rightarrow> int" where
  "code c = of_char c"

definition is_digit :: "char \<Rightarrow> bool" where
  \<comment> \<open>the regular expression class \<^verbatim>\<open>\d\<close> and DecimalDigit\<close>
  "is_digit c = (48 \<le> code c \<and> code c \<le> 57)"

definition digit_val :: "char \<Rightarrow> int" where
  "digit_val c = code c - 48"

definition digits_val :: "string \<Rightarrow> int" where
  "digits_val ds = foldl (\<lambda>a c. 10 * a + digit_val c) 0 ds"

definition is_ws :: "char \<Rightarrow> bool" where
  \<comment> \<open>StrWhiteSpaceChar below 256: TAB, LF, VT, FF, CR, SP, NBSP\<close>
  "is_ws c = (code c \<in> {9, 10, 11, 12, 13, 32, 160})"

definition startsWith :: "string \<Rightarrow> string \<Rightarrow> bool" where
  "startsWith s p = (take (length p) s = p)"

fun str_includes :: "string \<Rightarrow> string \<Rightarrow> bool" where
  "str_includes [] p = (p = [])"
| "str_includes (c # s) p = (startsWith (c # s) p \<or> str_includes s p)"

subsection \<open>parseFloat\<close>

definition pow10 :: "int \<Rightarrow> rat" where
  "pow10 e = (if 0 \<le> e then 10 ^ nat e else 1 / 10 ^ nat (- e))"

definition exponent_part :: "string \<Rightarrow> int" where
  \<comment> \<open>ExponentPart, if the rest starts with one; 0 otherwise\<close>
  "exponent_part r =
     (if startsWith r ''e'' \<or> startsWith r ''E'' then
        (let r1 = tl r;
             neg = startsWith r1 ''-'';
             r2 = (if startsWith r1 ''-'' \<or> startsWith r1 ''+'' then tl r1 else r1);
             ed = takeWhile is_digit r2
         in if ed = [] then 0
            else if neg then - digits_val ed else digits_val ed)
      else 0)"

definition parseFloat :: "string \<Rightarrow> jsnum" where
  \<comment> \<open>leading white space is skipped, then the longest prefix that is a
      StrDecimalLiteral is read; \<open>NaN\<close> when there is none\<close>
  "parseFloat input =
     (let s = dropWhile is_ws input;
          neg = startsWith s ''-'';
          u = (if startsWith s ''-'' \<or> startsWith s ''+'' then tl s else s)
      in if startsWith u ''Infinity'' then (if neg then NegInf else PosInf)
         else
           let ip = takeWhile is_digit u;
               r1 = dropWhile is_digit u;
               fp = (if startsWith r1 ''.'' then takeWhile is_digit (tl r1) else []);
               r2 = (if startsWith r1 ''.'' then dropWhile is_digit (tl r1) else r1)
           in if ip = [] \<and> fp = [] then NaN
              else
                let m = of_int (digits_val ip) + of_int (digits_val fp) / 10 ^ length fp;
                    v = m * pow10 (exponent_part r2)
                in Num (if neg then - v else v))"

section \<open>Watermark parameters\<close>

subsection \<open>Opacity\<close>

definition opacity :: "string option \<Rightarrow> jsnum" where
  \<comment> \<open>longer file, lines 51-54; the argument is \<^verbatim>\<open>req.body.opacity\<close>\<close>
  "opacity body_opacity =
     (let rawOpacity = parseFloat (to_string body_opacity)
      in if isNaN rawOpacity then Num (3 / 10)
         else js_min (js_max rawOpacity (Num 0)) (Num 1))"

definition opacity_index :: "string option \<Rightarrow> jsnum" where
  \<comment> \<open>\<^verbatim>\<open>src/index.js\<close>, line 27:
      \<^verbatim>\<open>Math.min(Math.max(parseFloat(req.body.opacity) || 0.3, 0), 1)\<close>\<close>
  "opacity_index body_opacity =
     (let parsed = parseFloat (to_string body_opacity)
      in js_min (js_max (if num_truthy parsed then parsed else Num (3 / 10)) (Num 0)) (Num 1))"

subsection \<open>Colour\<close>

text \<open>
  \<^verbatim>\<open>parseInt(string, 16)\<close>: leading white space, a sign and a \<^verbatim>\<open>0x\<close> prefix are
  skipped, then the longest run of hexadecimal digits is read; the mathematical value is
  converted to a number (round to nearest, ties to even, above \<open>2 ^ 53\<close>).
\<close>

definition is_hex_digit :: "char \<Rightarrow> bool" where
  "is_hex_digit c =
     (is_digit c \<or> (65 \<le> code c \<and> code c \<le> 70) \<or> (97 \<le> code c \<and> code c \<le> 102))"

definition hex_digit_val :: "char \<Rightarrow> int" where
  "hex_digit_val c =
     (if is_digit c then code c - 48
      else if code c \<le> 70 then code c - 55
      else code c - 87)"

definition hex_val :: "string \<Rightarrow> int" where
  "hex_val ds = foldl (\<lambda>a c. 16 * a + hex_digit_val c) 0 ds"

function bitlen :: "int \<Rightarrow> nat" where
  \<comment> \<open>the number of binary digits\<close>
  "bitlen n = (if n \<le> 0 then 0 else Suc (bitlen (n div 2)))"
  by pat_completeness auto
termination
  by (relation "measure nat") auto

declare bitlen.simps [simp del]

definition number_of_int :: "int \<Rightarrow> jsnum" where
  \<comment> \<open>the Number value for a non-negative mathematical integer\<close>
  "number_of_int n =
     (if n < 2 ^ 53 then Num (of_int n)
      else
        let e = bitlen n - 53;
            q = n div 2 ^ e;
            r = n mod 2 ^ e;
            half = 2 ^ (e - 1);
            q' = (if half < r \<or> (r = half \<and> odd q) then q + 1 else q)
        in if 2 ^ 1024 \<le> q' * 2 ^ e then PosInf else Num (of_int (q' * 2 ^ e)))"

fun js_negate :: "jsnum \<Rightarrow> jsnum" where
  "js_negate NaN = NaN"
| "js_negate NegInf = PosInf"
| "js_negate PosInf = NegInf"
| "js_negate (Num a) = Num (- a)"

definition parseInt16 :: "string \<Rightarrow> jsnum" where
  "parseInt16 input =
     (let s = dropWhile is_ws input;
          neg = startsWith s ''-'';
          s1 = (if startsWith s ''-'' \<or> startsWith s ''+'' then tl s else s);
          s2 = (if startsWith s1 ''0x'' \<or> startsWith s1 ''0X'' then drop 2 s1 else s1);
          z = takeWhile is_hex_digit s2
      in if z = [] then NaN
         else if neg then js_negate (number_of_int (hex_val z))
         else number_of_int (hex_val z))"

fun replace_first :: "char \<Rightarrow> string \<Rightarrow> string" where
  \<comment> \<open>\<^verbatim>\<open>s.replace(c, "")\<close> with a one-character string pattern: only the first
      occurrence goes\<close>
  "replace_first c [] = []"
| "replace_first c (x # xs) = (if x = c then xs else x # replace_first c xs)"

definition ToInt32 :: "jsnum \<Rightarrow> int" where
  \<comment> \<open>truncation, then reduction modulo \<open>2 ^ 32\<close> into the signed range\<close>
  "ToInt32 x =
     (case x of
        Num a \<Rightarrow>
          (let n = (if 0 \<le> a then \<lfloor>a\<rfloor> else - \<lfloor>- a\<rfloor>);
               k = n mod 2 ^ 32
           in if 2 ^ 31 \<le> k then k - 2 ^ 32 else k)
      | _ \<Rightarrow> 0)"

datatype color = RGB (red: rat) (green: rat) (blue: rat)

definition rgb :: "rat \<Rightarrow> rat \<Rightarrow> rat \<Rightarrow> js_error + color" where
  \<comment> \<open>pdf-lib's constructor: it asserts that each channel lies in \<open>[0, 1]\<close>\<close>
  "rgb r g b =
     (if \<not> (0 \<le> r \<and> r \<le> 1) then Inl (LibraryError ''red must be at least 0 and at most 1'')
      else if \<not> (0 \<le> g \<and> g \<le> 1) then Inl (LibraryError ''green must be at least 0 and at most 1'')
      else if \<not> (0 \<le> b \<and> b \<le> 1) then Inl (LibraryError ''blue must be at least 0 and at most 1'')
      else Inr (RGB r g b))"

definition channel :: "int \<Rightarrow> nat \<Rightarrow> rat" where
  \<comment> \<open>\<^verbatim>\<open>((bigint >> n) & 255) / 255\<close> on a signed 32-bit value: the shift is the
      floor division by \<open>2 ^ n\<close>, the mask the remainder modulo 256\<close>
  "channel bigint n = of_int (bigint div 2 ^ n mod 256) / 255"

definition hexToRgb :: "string \<Rightarrow> js_error + color" where
  "hexToRgb hex =
     (let bigint = ToInt32 (parseInt16 (replace_first CHR ''#'' hex));
          r = channel bigint 16;
          g = channel bigint 8;
          b = channel bigint 0
      in rgb r g b)"

section \<open>Documents and the library\<close>

text \<open>
  pdf-lib is outside the repository. A document is the record of what the handlers read
  and write through it: the low-level context (trailer and indirect objects), the values
  the structured accessors return, and the pages with the runs drawn on them. A setter
  stores the value its getter returns. The placement of a run (anchor, font size,
  rotation, image scale) is not part of the model: the properties below concern which
  runs are drawn, their colour and their opacity.
\<close>

datatype info_value =
    Text string          \<comment> \<open>a string object; \<^verbatim>\<open>decodeText()\<close> gives the text\<close>
  | Undecodable string   \<comment> \<open>a string object whose \<^verbatim>\<open>decodeText()\<close> throws; \<^verbatim>\<open>String(val)\<close>\<close>
  | Other string         \<comment> \<open>an object without \<^verbatim>\<open>decodeText\<close>; \<^verbatim>\<open>String(val)\<close>\<close>

datatype pdfobj =
    PDFRef nat
  | PDFDict "(string \<times> info_value) list"
  | PDFOther

datatype trailer =
    NoTrailer               \<comment> \<open>\<^verbatim>\<open>context.trailer\<close> is missing or has no \<^verbatim>\<open>get\<close>\<close>
  | Trailer "pdfobj option" \<comment> \<open>a dictionary, with what it holds under \<^verbatim>\<open>Info\<close>\<close>

datatype jsdate = InvalidDate | DateAt int  \<comment> \<open>milliseconds since the epoch\<close>

datatype image = Image (img_width: rat) (img_height: rat)

datatype draw_op =
    DrawText string color jsnum   \<comment> \<open>text, colour, opacity\<close>
  | DrawImage image jsnum         \<comment> \<open>image, opacity\<close>

record page =
  drawn :: "draw_op list"

record document =
  trailer :: trailer
  objects :: "(nat \<times> pdfobj) list"
  getTitle :: "string option"
  getAuthor :: "string option"
  getSubject :: "string option"
  getKeywords :: "string option"
  getCreator :: "string option"
  getProducer :: "string option"
  getCreationDate :: "jsdate option"
  getModificationDate :: "jsdate option"
  getPages :: "page list"

definition setTitle :: "string \<Rightarrow> document \<Rightarrow> document" where
  "setTitle v d = d\<lparr>getTitle := Some v\<rparr>"

definition setAuthor :: "string \<Rightarrow> document \<Rightarrow> document" where
  "setAuthor v d = d\<lparr>getAuthor := Some v\<rparr>"

definition setSubject :: "string \<Rightarrow> document \<Rightarrow> document" where
  "setSubject v d = d\<lparr>getSubject := Some v\<rparr>"

fun join_space :: "string list \<Rightarrow> string" where
  "join_space [] = []"
| "join_space [k] = k"
| "join_space (k # ks) = k @ '' '' @ join_space ks"

definition setKeywords :: "string list \<Rightarrow> document \<Rightarrow> document" where
  \<comment> \<open>pdf-lib stores the keywords joined by single spaces\<close>
  "setKeywords ks d = d\<lparr>getKeywords := Some (join_space ks)\<rparr>"

definition setCreator :: "string \<Rightarrow> document \<Rightarrow> document" where
  "setCreator v d = d\<lparr>getCreator := Some v\<rparr>"

definition setProducer :: "string \<Rightarrow> document \<Rightarrow> document" where
  "setProducer v d = d\<lparr>getProducer := Some v\<rparr>"

definition setCreationDate :: "jsdate \<Rightarrow> document \<Rightarrow> document" where
  "setCreationDate v d = d\<lparr>getCreationDate := Some v\<rparr>"

definition setModificationDate :: "jsdate \<Rightarrow> document \<Rightarrow> document" where
  "setModificationDate v d = d\<lparr>getModificationDate := Some v\<rparr>"

text \<open>
  The calls that leave the process or decode bytes are parameters: loading (with the
  \<^verbatim>\<open>updateMetadata\<close> flag) and saving a document, the remote fetch together with
  reading its body, base64 decoding, the two image decoders and \<^verbatim>\<open>new Date(string)\<close>.
  Each may throw where the library or the runtime may.
\<close>

record 'b library =
  load :: "bool \<Rightarrow> 'b \<Rightarrow> js_error + document"
  save :: "document \<Rightarrow> 'b"
  fetch :: "string \<Rightarrow> js_error + 'b"
  from_base64 :: "string \<Rightarrow> 'b"
  embedPng :: "'b \<Rightarrow> js_error + image"
  embedJpg :: "'b \<Rightarrow> js_error + image"
  new_Date :: "string \<Rightarrow> jsdate"

record 'b upload =
  buffer :: 'b
  mimetype :: string

record 'b request =
  files_pdf :: "'b upload option"     \<comment> \<open>\<^verbatim>\<open>req.files.pdf[0]\<close>, or \<^verbatim>\<open>req.file\<close> on the metadata routes\<close>
  files_image :: "'b upload option"   \<comment> \<open>\<^verbatim>\<open>req.files.image[0]\<close>\<close>
  body :: "(string \<times> string) list"

definition field :: "'b request \<Rightarrow> string \<Rightarrow> string option" where
  "field req k = map_of (body req) k"

definition andThen :: "'e + 'a \<Rightarrow> ('a \<Rightarrow> 'e + 'c) \<Rightarrow> 'e + 'c" where
  \<comment> \<open>sequencing inside a \<^verbatim>\<open>try\<close> block: the first throw ends it\<close>
  "andThen r k = (case r of Inl e \<Rightarrow> Inl e | Inr v \<Rightarrow> k v)"

section \<open>Provenance stamper\<close>

text \<open>
  \<^verbatim>\<open>utils/pdfMetadata.js\<close>. With a usable trailer the first statement of the
  \<^verbatim>\<open>else\<close> branch reads \<^verbatim>\<open>infoDictRef\<close>, an identifier that no declaration in the
  module binds, so evaluation throws a ReferenceError there and the statements after it
  (creating the Info dictionary, the three raw fields) are never reached.
\<close>

definition addEndlessForgeMetadata :: "document \<Rightarrow> js_error + document" where
  "addEndlessForgeMetadata pdfDoc =
     (let producer = ''Endless Forge PDF API''
      in andThen (case trailer pdfDoc of
                NoTrailer \<Rightarrow> Inr pdfDoc
              | Trailer entry \<Rightarrow> Inl (ReferenceError ''infoDictRef is not defined''))
           (\<lambda>d. Inr (setTitle ''Generated PDF''
                        (setCreator ''Endless Forge'' (setProducer producer d)))))"

section \<open>Watermark compositor\<close>

fun split_on :: "char \<Rightarrow> string \<Rightarrow> string list" where
  \<comment> \<open>\<^verbatim>\<open>s.split(c)\<close> with a one-character separator\<close>
  "split_on c [] = [[]]"
| "split_on c (x # xs) =
     (if x = c then [] # split_on c xs
      else (case split_on c xs of t # ts \<Rightarrow> (x # t) # ts | [] \<Rightarrow> [[x]]))"

definition embed :: "'b library \<Rightarrow> bool \<Rightarrow> 'b \<Rightarrow> js_error + image" where
  "embed L png bytes = (if png then embedPng L bytes else embedJpg L bytes)"

definition image_buffer :: "'b library \<Rightarrow> string \<Rightarrow> js_error + 'b option" where
  \<comment> \<open>the \<^verbatim>\<open>imgBuffer\<close> of a non-empty \<^verbatim>\<open>image\<close> body field\<close>
  "image_buffer L image_str =
     (if startsWith image_str ''data:image'' then
        (case split_on CHR '','' image_str of
           _ # base64Data # _ \<Rightarrow> Inr (Some (from_base64 L base64Data))
         | _ \<Rightarrow> Inl (TypeError ''The first argument must be of type string or an instance of Buffer, ArrayBuffer, or Array or an Array-like Object. Received undefined''))
      else if startsWith image_str ''http'' then
        andThen (fetch L image_str) (\<lambda>bytes. Inr (Some bytes))
      else Inr None)"

definition embeddedImg :: "'b library \<Rightarrow> 'b request \<Rightarrow> js_error + image option" where
  "embeddedImg L req =
     (case files_image req of
        Some imageFile \<Rightarrow>
          andThen (embed L (str_includes (mimetype imageFile) ''png'') (buffer imageFile))
            (\<lambda>i. Inr (Some i))
      | None \<Rightarrow>
          (if truthy (field req ''image'') then
             (let image_str = to_string (field req ''image'')
              in andThen (image_buffer L image_str)
                   (\<lambda>imgBuffer. case imgBuffer of
                        None \<Rightarrow> Inr None
                      | Some bytes \<Rightarrow>
                          andThen (embed L (str_includes image_str ''png'') bytes) (\<lambda>i. Inr (Some i))))
           else Inr None))"

definition color_field :: "'b request \<Rightarrow> string" where
  \<comment> \<open>\<^verbatim>\<open>color = "#cccccc"\<close> in the destructuring: the default replaces \<^verbatim>\<open>undefined\<close> only\<close>
  "color_field req = (case field req ''color'' of None \<Rightarrow> ''#cccccc'' | Some c \<Rightarrow> c)"

definition draw_text :: "string option \<Rightarrow> string option \<Rightarrow> string \<Rightarrow> jsnum \<Rightarrow> js_error + draw_op list" where
  \<comment> \<open>the \<^verbatim>\<open>if (text)\<close> block of the page loop; \<^verbatim>\<open>shadow = false\<close> by default, so an
      absent field is falsy\<close>
  "draw_text text shadow color op =
     (if truthy text then
        andThen (if truthy shadow then
               andThen (rgb 0 0 0) (\<lambda>k. Inr [DrawText (to_string text) k (js_times op (1 / 2))])
             else Inr [])
          (\<lambda>shadow_run. andThen (hexToRgb color)
             (\<lambda>c. Inr (shadow_run @ [DrawText (to_string text) c op])))
      else Inr [])"

definition draw_page ::
  "string option \<Rightarrow> string option \<Rightarrow> string \<Rightarrow> jsnum \<Rightarrow> image option \<Rightarrow> page \<Rightarrow> js_error + page" where
  "draw_page text shadow color op img pg =
     andThen (draw_text text shadow color op)
       (\<lambda>runs. Inr (pg\<lparr>drawn := drawn pg @ runs @
                        (case img of None \<Rightarrow> [] | Some i \<Rightarrow> [DrawImage i op])\<rparr>))"

fun forEach :: "('a \<Rightarrow> js_error + 'a) \<Rightarrow> 'a list \<Rightarrow> js_error + 'a list" where
  "forEach f [] = Inr []"
| "forEach f (x # xs) = andThen (f x) (\<lambda>y. andThen (forEach f xs) (\<lambda>ys. Inr (y # ys)))"

record metadata =
  title :: "string option"
  author :: "string option"
  subject :: "string option"
  keywords_value :: "string option"
  creator :: "string option"
  producer :: "string option"
  creationDate :: "string option"
  modificationDate :: "string option"

record customFields =
  company :: "string option"
  manager :: "string option"
  sourceModified :: "string option"
  category :: "string option"
  comments :: "string option"

record result =
  metadata :: metadata
  customFields :: customFields
  pageCount :: nat

datatype 'b response =
    Status_Json nat string   \<comment> \<open>\<^verbatim>\<open>res.status(n).json({ error })\<close>\<close>
  | Send_Pdf string 'b       \<comment> \<open>attachment file name, bytes\<close>
  | Json result              \<comment> \<open>\<^verbatim>\<open>res.json(result)\<close>\<close>

definition respond :: "js_error + 'b response \<Rightarrow> 'b response" where
  \<comment> \<open>the \<^verbatim>\<open>catch\<close> of a handler\<close>
  "respond r = (case r of Inl err \<Rightarrow> Status_Json 500 (message err) | Inr ok \<Rightarrow> ok)"

definition composite :: "'b library \<Rightarrow> 'b request \<Rightarrow> jsnum \<Rightarrow> document \<Rightarrow> js_error + 'b response" where
  \<comment> \<open>from the image resolution to the response; the same in both files\<close>
  "composite L req op pdfDoc =
     andThen (embeddedImg L req) (\<lambda>img.
     andThen (forEach (draw_page (field req ''text'') (field req ''shadow'') (color_field req) op img)
            (getPages pdfDoc)) (\<lambda>pages.
     andThen (addEndlessForgeMetadata (pdfDoc\<lparr>getPages := pages\<rparr>)) (\<lambda>stamped.
     Inr (Send_Pdf ''watermarked.pdf'' (save L stamped)))))"

definition watermark :: "'b library \<Rightarrow> 'b request \<Rightarrow> 'b response" where
  \<comment> \<open>POST /pdf/watermark, longer file\<close>
  "watermark L req =
     (case files_pdf req of
        None \<Rightarrow> Status_Json 400 (''Upload a PDF file under field '' @ [CHR 0x27] @ ''pdf'' @ [CHR 0x27])
      | Some pdfFile \<Rightarrow>
          if \<not> truthy (field req ''text'') \<and> \<not> truthy (field req ''image'') \<and> files_image req = None
          then Status_Json 400 ''Provide either watermark text or image''
          else respond (andThen (load L True (buffer pdfFile))
                          (composite L req (opacity (field req ''opacity'')))))"

definition watermark_index :: "'b library \<Rightarrow> 'b request \<Rightarrow> 'b response" where
  \<comment> \<open>POST /pdf/watermark, \<^verbatim>\<open>src/index.js\<close>\<close>
  "watermark_index L req =
     (case files_pdf req of
        None \<Rightarrow> Status_Json 400 ''Upload a PDF file''
      | Some pdfFile \<Rightarrow>
          respond (andThen (load L True (buffer pdfFile))
                     (composite L req (opacity_index (field req ''opacity'')))))"

section \<open>Dates\<close>

text \<open>
  \<^verbatim>\<open>Date.UTC\<close> and \<^verbatim>\<open>toISOString\<close> of the language, on integers: days are counted
  from 1970-01-01 in the proleptic Gregorian calendar, a time value is in milliseconds.
\<close>

definition msPerDay :: int where
  "msPerDay = 86400000"

definition DayFromYear :: "int \<Rightarrow> int" where
  "DayFromYear y =
     365 * (y - 1970) + (y - 1969) div 4 - (y - 1901) div 100 + (y - 1601) div 400"

definition InLeapYear :: "int \<Rightarrow> bool" where
  "InLeapYear y = (y mod 4 = 0 \<and> (y mod 100 \<noteq> 0 \<or> y mod 400 = 0))"

definition month_start :: "int \<Rightarrow> nat \<Rightarrow> int" where
  \<comment> \<open>days of the year before month \<open>mn\<close> (0 is January)\<close>
  "month_start y mn =
     [0, 31, 59, 90, 120, 151, 181, 212, 243, 273, 304, 334] ! mn
       + (if InLeapYear y \<and> 2 \<le> mn then 1 else 0)"

definition MakeDay :: "int \<Rightarrow> int \<Rightarrow> int \<Rightarrow> int" where
  "MakeDay year month date =
     (let ym = year + month div 12;
          mn = nat (month mod 12)
      in DayFromYear ym + month_start ym mn + date - 1)"

definition MakeTime :: "int \<Rightarrow> int \<Rightarrow> int \<Rightarrow> int \<Rightarrow> int" where
  "MakeTime hour minute sec ms = hour * 3600000 + minute * 60000 + sec * 1000 + ms"

definition TimeClip :: "int \<Rightarrow> jsdate" where
  "TimeClip t = (if \<bar>t\<bar> \<le> 8640000000000000 then DateAt t else InvalidDate)"

definition Date_UTC :: "int \<Rightarrow> int \<Rightarrow> int \<Rightarrow> int \<Rightarrow> int \<Rightarrow> int \<Rightarrow> jsdate" where
  "Date_UTC year month date hours minutes seconds =
     (let yr = (if 0 \<le> year \<and> year \<le> 99 then 1900 + year else year)
      in TimeClip (MakeDay yr month date * msPerDay + MakeTime hours minutes seconds 0))"

definition civil :: "int \<Rightarrow> int \<times> int \<times> int" where
  \<comment> \<open>year, month (1 is January) and day of the month of a day number\<close>
  "civil day =
     (let z = day + 719468;
          era = z div 146097;
          doe = z mod 146097;
          yoe = (doe - doe div 1460 + doe div 36524 - doe div 146096) div 365;
          doy = doe - (365 * yoe + yoe div 4 - yoe div 100);
          mp = (5 * doy + 2) div 153;
          d = doy - (153 * mp + 2) div 5 + 1;
          m = (if mp < 10 then mp + 3 else mp - 9)
      in (yoe + era * 400 + (if m \<le> 2 then 1 else 0), m, d))"

definition digit_char :: "int \<Rightarrow> char" where
  "digit_char k = char_of (48 + k mod 10)"

definition pad :: "nat \<Rightarrow> int \<Rightarrow> string" where
  \<comment> \<open>the last \<open>w\<close> decimal digits of \<open>n\<close>\<close>
  "pad w n = map (\<lambda>i. digit_char (n div 10 ^ i)) (rev [0..<w])"

definition year_string :: "int \<Rightarrow> string" where
  "year_string y =
     (if 0 \<le> y \<and> y \<le> 9999 then pad 4 y
      else (if y < 0 then ''-'' else ''+'') @ pad 6 \<bar>y\<bar>)"

definition toISOString :: "jsdate \<Rightarrow> js_error + string" where
  "toISOString date =
     (case date of
        InvalidDate \<Rightarrow> Inl (RangeError ''Invalid time value'')
      | DateAt t \<Rightarrow>
          (let (y, m, d) = civil (t div msPerDay);
               r = t mod msPerDay
           in Inr (year_string y @ ''-'' @ pad 2 m @ ''-'' @ pad 2 d @ ''T''
                   @ pad 2 (r div 3600000) @ '':'' @ pad 2 (r div 60000 mod 60) @ '':''
                   @ pad 2 (r div 1000 mod 60) @ ''.'' @ pad 3 (r mod 1000) @ ''Z'')))"

section \<open>Metadata normalizer\<close>

definition lookup :: "document \<Rightarrow> pdfobj \<Rightarrow> pdfobj option" where
  \<comment> \<open>\<^verbatim>\<open>context.lookup\<close>: a reference is resolved, anything else is returned as it is\<close>
  "lookup pdfDoc obj = (case obj of PDFRef n \<Rightarrow> map_of (objects pdfDoc) n | _ \<Rightarrow> Some obj)"

definition infoDict :: "document \<Rightarrow> (string \<times> info_value) list option" where
  \<comment> \<open>lines 194-207; a throw inside the \<^verbatim>\<open>try\<close> gives \<^verbatim>\<open>null\<close>\<close>
  "infoDict pdfDoc =
     (case trailer pdfDoc of
        NoTrailer \<Rightarrow> None
      | Trailer None \<Rightarrow> None
      | Trailer (Some infoRef) \<Rightarrow>
          (case lookup pdfDoc infoRef of
             Some (PDFDict entries) \<Rightarrow> Some entries
           | _ \<Rightarrow> None))"

definition safeGet :: "document \<Rightarrow> string \<Rightarrow> string option" where
  "safeGet pdfDoc key =
     (case infoDict pdfDoc of
        None \<Rightarrow> None
      | Some entries \<Rightarrow>
          (case map_of entries key of
             None \<Rightarrow> None
           | Some (Text s) \<Rightarrow> Some s
           | Some (Undecodable s) \<Rightarrow> Some s
           | Some (Other s) \<Rightarrow> Some s))"

definition match_pdf_date :: "string \<Rightarrow> string list option" where
  \<comment> \<open>\<^verbatim>\<open>str.match(/^D:(\d{4})(\d{2})(\d{2})(\d{2})(\d{2})(\d{2})/)\<close>: the six groups\<close>
  "match_pdf_date str =
     (let ds = take 14 (drop 2 str)
      in if startsWith str ''D:'' \<and> length ds = 14 \<and> list_all is_digit ds
         then Some [take 4 ds, take 2 (drop 4 ds), take 2 (drop 6 ds), take 2 (drop 8 ds),
                    take 2 (drop 10 ds), take 2 (drop 12 ds)]
         else None)"

definition parsePdfDate :: "string option \<Rightarrow> js_error + string option" where
  "parsePdfDate str =
     (if \<not> truthy str then Inr None
      else
        (case match_pdf_date (to_string str) of
           None \<Rightarrow> Inr None
         | Some groups \<Rightarrow>
             (case map digits_val groups of
                [y, m, d, h, mi, s] \<Rightarrow>
                  andThen (toISOString (Date_UTC y (m - 1) d h mi s)) (\<lambda>iso. Inr (Some iso))
              | _ \<Rightarrow> Inr None)))"

definition or_else :: "string option \<Rightarrow> string option \<Rightarrow> string option" where
  \<comment> \<open>\<^verbatim>\<open>a || b\<close>\<close>
  "or_else a b = (if truthy a then a else b)"

definition date_entry :: "string option \<Rightarrow> jsdate option \<Rightarrow> js_error + string option" where
  \<comment> \<open>\<^verbatim>\<open>parsePdfDate(safeGet(key)) || accessor()?.toISOString() || null\<close>\<close>
  "date_entry raw structured =
     andThen (parsePdfDate raw) (\<lambda>parsed.
       if truthy parsed then Inr parsed
       else
         (case structured of
            None \<Rightarrow> Inr None
          | Some date \<Rightarrow> andThen (toISOString date) (\<lambda>iso. Inr (or_else (Some iso) None))))"

definition keep :: "string option \<Rightarrow> string option" where
  \<comment> \<open>\<^verbatim>\<open>.filter(([_, v]) => v)\<close>: a falsy value drops the key\<close>
  "keep v = (if truthy v then v else None)"

definition read_metadata :: "document \<Rightarrow> js_error + metadata" where
  \<comment> \<open>lines 231-246 and the filter of line 271\<close>
  "read_metadata pdfDoc =
     andThen (date_entry (safeGet pdfDoc ''CreationDate'') (getCreationDate pdfDoc)) (\<lambda>created.
     andThen (date_entry (safeGet pdfDoc ''ModDate'') (getModificationDate pdfDoc)) (\<lambda>modified.
     Inr \<lparr> title = keep (or_else (getTitle pdfDoc) (safeGet pdfDoc ''Title'')),
           author = keep (or_else (getAuthor pdfDoc) (safeGet pdfDoc ''Author'')),
           subject = keep (or_else (getSubject pdfDoc) (safeGet pdfDoc ''Subject'')),
           keywords_value = keep (or_else (getKeywords pdfDoc) (safeGet pdfDoc ''Keywords'')),
           creator = keep (or_else (getCreator pdfDoc) (safeGet pdfDoc ''Creator'')),
           producer = keep (or_else (getProducer pdfDoc) (safeGet pdfDoc ''Producer'')),
           creationDate = keep created,
           modificationDate = keep modified \<rparr>))"

definition read_customFields :: "document \<Rightarrow> customFields" where
  "read_customFields pdfDoc =
     \<lparr> company = keep (safeGet pdfDoc ''Company''),
       manager = keep (safeGet pdfDoc ''Manager''),
       sourceModified = keep (safeGet pdfDoc ''SourceModified''),
       category = keep (safeGet pdfDoc ''Category''),
       comments = keep (safeGet pdfDoc ''Comments'') \<rparr>"

definition metadata_get :: "'b library \<Rightarrow> 'b request \<Rightarrow> 'b response" where
  \<comment> \<open>POST /pdf/metadata/get, longer file; of the technical group only the page count
      is modelled\<close>
  "metadata_get L req =
     (case files_pdf req of
        None \<Rightarrow> Status_Json 400 ''Please upload a PDF file.''
      | Some file \<Rightarrow>
          respond (andThen (load L False (buffer file)) (\<lambda>pdfDoc.
                   andThen (read_metadata pdfDoc) (\<lambda>md.
                   Inr (Json \<lparr> metadata = md, customFields = read_customFields pdfDoc,
                               pageCount = length (getPages pdfDoc) \<rparr>)))))"

section \<open>Metadata writer\<close>

definition trim :: "string \<Rightarrow> string" where
  "trim s = rev (dropWhile is_ws (rev (dropWhile is_ws s)))"

definition provided :: "string option \<Rightarrow> (string \<Rightarrow> document \<Rightarrow> document) \<Rightarrow> document \<Rightarrow> document" where
  \<comment> \<open>\<^verbatim>\<open>if (v) pdfDoc.setX(... v ...)\<close>\<close>
  "provided v set_it d = (if truthy v then set_it (to_string v) d else d)"

definition write_fields :: "'b library \<Rightarrow> 'b request \<Rightarrow> document \<Rightarrow> document" where
  \<comment> \<open>longer file, lines 310-317\<close>
  "write_fields L req =
     provided (field req ''modDate'') (\<lambda>v. setModificationDate (new_Date L v)) \<circ>
     provided (field req ''creationDate'') (\<lambda>v. setCreationDate (new_Date L v)) \<circ>
     provided (field req ''producer'') setProducer \<circ>
     provided (field req ''creator'') setCreator \<circ>
     provided (field req ''keywords'') (\<lambda>v. setKeywords (map trim (split_on CHR '','' v))) \<circ>
     provided (field req ''subject'') setSubject \<circ>
     provided (field req ''author'') setAuthor \<circ>
     provided (field req ''title'') setTitle"

definition metadata_set :: "'b library \<Rightarrow> 'b request \<Rightarrow> 'b response" where
  \<comment> \<open>POST /pdf/metadata/set, longer file\<close>
  "metadata_set L req =
     (case files_pdf req of
        None \<Rightarrow> Status_Json 400 ''Upload a PDF''
      | Some file \<Rightarrow>
          respond (andThen (load L True (buffer file)) (\<lambda>pdfDoc.
                   Inr (Send_Pdf ''metadata-updated.pdf'' (save L (write_fields L req pdfDoc))))))"

definition write_fields_index :: "'b request \<Rightarrow> document \<Rightarrow> document" where
  \<comment> \<open>\<^verbatim>\<open>src/index.js\<close>, lines 119-123\<close>
  "write_fields_index req =
     provided (field req ''producer'') setProducer \<circ>
     provided (field req ''keywords'') (\<lambda>v. setKeywords (split_on CHR '','' v)) \<circ>
     provided (field req ''subject'') setSubject \<circ>
     provided (field req ''author'') setAuthor \<circ>
     provided (field req ''title'') setTitle"

definition metadata_set_index :: "'b library \<Rightarrow> 'b request \<Rightarrow> 'b response" where
  \<comment> \<open>POST /pdf/metadata/set, \<^verbatim>\<open>src/index.js\<close>\<close>
  "metadata_set_index L req =
     (case files_pdf req of
        None \<Rightarrow> Status_Json 400 ''Upload a PDF''
      | Some file \<Rightarrow>
          respond (andThen (load L True (buffer file)) (\<lambda>pdfDoc.
                   Inr (Send_Pdf ''metadata-updated.pdf'' (save L (write_fields_index req pdfDoc))))))"


section \<open>Sample documents, requests and an in-memory library\<close>

text \<open>
  Concrete inputs for evaluating the handlers. In the in-memory library a buffer is
  either the document it encodes or raw bytes; the remote world is a table from URL to
  body, and a URL outside the table cannot be fetched.
\<close>

datatype bytes = Pdf_Bytes document | Raw_Bytes string

definition blank_document :: document where
  "blank_document =
     \<lparr> trailer = NoTrailer, objects = [],
       getTitle = None, getAuthor = None, getSubject = None, getKeywords = None,
       getCreator = None, getProducer = None,
       getCreationDate = None, getModificationDate = None,
       getPages = [\<lparr> drawn = [] \<rparr>] \<rparr>"

definition memory_library :: "(string \<times> string) list \<Rightarrow> bytes library" where
  "memory_library remote =
     \<lparr> load = (\<lambda>updateMetadata b. case b of
                  Pdf_Bytes d \<Rightarrow> Inr d
                | Raw_Bytes r \<Rightarrow> Inl (LibraryError ''Failed to parse PDF document'')),
       save = Pdf_Bytes,
       fetch = (\<lambda>url. case map_of remote url of
                  None \<Rightarrow> Inl (TypeError ''fetch failed'')
                | Some payload \<Rightarrow> Inr (Raw_Bytes payload)),
       from_base64 = Raw_Bytes,
       embedPng = (\<lambda>b. if b = Raw_Bytes ''PNG'' then Inr (Image 1 1)
                        else Inl (LibraryError ''The input is not a PNG file!'')),
       embedJpg = (\<lambda>b. if b = Raw_Bytes ''JPG'' then Inr (Image 1 1)
                        else Inl (LibraryError ''SOI not found in JPEG'')),
       new_Date = (\<lambda>v. if v = ''2020-01-01T00:00:00.000Z'' then DateAt 1577836800000
                        else InvalidDate) \<rparr>"

definition post :: "document \<Rightarrow> (string \<times> string) list \<Rightarrow> bytes request" where
  \<comment> \<open>a request that uploads the document as the PDF, with the given body fields\<close>
  "post d kvs =
     \<lparr> files_pdf = Some \<lparr> buffer = Pdf_Bytes d, mimetype = ''application/pdf'' \<rparr>,
       files_image = None, body = kvs \<rparr>"

definition post_bytes :: "bytes \<Rightarrow> bytes request" where
  \<comment> \<open>a request that uploads the bytes as the PDF, with an empty body\<close>
  "post_bytes b =
     \<lparr> files_pdf = Some \<lparr> buffer = b, mimetype = ''application/pdf'' \<rparr>,
       files_image = None, body = [] \<rparr>"


definition thesis_document :: document where
  \<comment> \<open>a document that already has a title\<close>
  "thesis_document = blank_document\<lparr>getTitle := Some ''Thesis''\<rparr>"


definition undated_document :: document where
  \<comment> \<open>the creation date accessor yields an invalid date and there is no raw entry\<close>
  "undated_document = blank_document\<lparr>getCreationDate := Some InvalidDate\<rparr>"

section \<open>ISO 8601 shape\<close>



section \<open>Properties of the watermark parameters\<close>

lemma opacity_cases:
  "opacity v =
     (case parseFloat (to_string v) of
        NaN \<Rightarrow> Num (3 / 10)
      | NegInf \<Rightarrow> Num 0
      | Num a \<Rightarrow> Num (min (max a 0) 1)
      | PosInf \<Rightarrow> Num 1)"
  by (cases "parseFloat (to_string v)") (simp_all add: opacity_def Let_def isNaN_def)

lemma opacity_range: "\<exists>q. opacity v = Num q \<and> 0 \<le> q \<and> q \<le> 1"
proof (cases "parseFloat (to_string v)")
  case NaN
  then have "opacity v = Num (3 / 10) \<and> (0::rat) \<le> 3 / 10 \<and> (3 / 10 :: rat) \<le> 1"
    by (simp add: opacity_cases)
  then show ?thesis by blast
next
  case NegInf
  then have "opacity v = Num 0 \<and> (0::rat) \<le> 0 \<and> (0::rat) \<le> 1"
    by (simp add: opacity_cases)
  then show ?thesis by blast
next
  case (Num a)
  then have "opacity v = Num (min (max a 0) 1) \<and> 0 \<le> min (max a 0) 1 \<and> min (max a 0) 1 \<le> 1"
    by (simp add: opacity_cases)
  then show ?thesis by blast
next
  case PosInf
  then have "opacity v = Num 1 \<and> (0::rat) \<le> 1 \<and> (1::rat) \<le> 1"
    by (simp add: opacity_cases)
  then show ?thesis by blast
qed

lemma opacity_table:
  "opacity (Some ''-5'') = Num 0"
  "opacity (Some ''0'') = Num 0"
  "opacity (Some ''0.5'') = Num (1 / 2)"
  "opacity (Some ''1'') = Num 1"
  "opacity (Some ''2'') = Num 1"
  "opacity (Some ''not a number'') = Num (3 / 10)"
  "opacity None = Num (3 / 10)"
  by code_simp+

lemma opacity_default_only_on_NaN:
  "parseFloat (to_string v) \<noteq> NaN \<Longrightarrow>
     opacity v = js_min (js_max (parseFloat (to_string v)) (Num 0)) (Num 1)"
  by (simp add: opacity_def Let_def isNaN_def)

lemma opacity_index_table:
  "opacity_index (Some ''-5'') = Num 0"
  "opacity_index (Some ''0.5'') = Num (1 / 2)"
  "opacity_index (Some ''1'') = Num 1"
  "opacity_index (Some ''2'') = Num 1"
  "opacity_index (Some ''not a number'') = Num (3 / 10)"
  "opacity_index None = Num (3 / 10)"
  by code_simp+

text \<open>
  C2. The opacity inputs -5, 0, 0.5, 1, 2 and "not a number" are to give 0, 0, 0.5, 1, 1
  and 0.3. The longer file does so (\<open>opacity_table\<close>, \<open>opacity_range\<close>). In
  \<^verbatim>\<open>src/index.js\<close> the default is attached with \<^verbatim>\<open>||\<close>, so the numeric input 0
  is replaced by the default: the effective opacity there is 0.3, not 0.
\<close>

theorem opacity_index_zero_gives_default:
  "opacity_index (Some ''0'') = Num (3 / 10) \<and> opacity (Some ''0'') = Num 0"
  by code_simp

lemma channel_range: "0 \<le> channel w n \<and> channel w n \<le> 1"
proof -
  have "0 \<le> w div 2 ^ n mod 256 \<and> w div 2 ^ n mod 256 \<le> 255"
    by simp
  then show ?thesis
    by (simp add: channel_def)
qed

lemma hexToRgb_channels:
  "hexToRgb hex =
     Inr (RGB (channel (ToInt32 (parseInt16 (replace_first CHR ''#'' hex))) 16)
              (channel (ToInt32 (parseInt16 (replace_first CHR ''#'' hex))) 8)
              (channel (ToInt32 (parseInt16 (replace_first CHR ''#'' hex))) 0))"
  by (simp add: hexToRgb_def Let_def rgb_def channel_range)

text \<open>
  C6 as stated: a malformed hex colour makes hexToRgb fail with an InvalidColor error.
  The code has no validation: \<^verbatim>\<open>parseInt\<close> reads what it can (\<open>NaN\<close> becomes 0 under
  the shifts), so \<^verbatim>\<open>"zzzzzz"\<close> is black.
\<close>

theorem hexToRgb_malformed_counterexample:
  "hexToRgb ''zzzzzz'' = Inr (RGB 0 0 0)"
  by code_simp

text \<open>
  C6 as amended: for every string, malformed or not, hexToRgb returns a colour whose
  three channels lie in \<open>[0, 1]\<close>; it never fails.
\<close>

theorem hexToRgb_never_fails:
  "\<exists>c. hexToRgb hex = Inr c
       \<and> 0 \<le> red c \<and> red c \<le> 1
       \<and> 0 \<le> green c \<and> green c \<le> 1
       \<and> 0 \<le> blue c \<and> blue c \<le> 1"
  by (simp add: hexToRgb_channels channel_range)







section \<open>Properties of the watermark handlers\<close>

lemma andThen_simps [simp]:
  "andThen (Inl e) k = Inl e"
  "andThen (Inr v) k = k v"
  by (simp_all add: andThen_def)

lemma respond_simps [simp]:
  "respond (Inl e) = Status_Json 500 (message e)"
  "respond (Inr r) = r"
  by (simp_all add: respond_def)

lemma andThen_Inr_iff:
  "(andThen r k = Inr y) = (\<exists>v. r = Inr v \<and> k v = Inr y)"
  by (cases r) simp_all



lemma stamper_with_trailer:
  "trailer d = Trailer entry \<Longrightarrow>
     addEndlessForgeMetadata d = Inl (ReferenceError ''infoDictRef is not defined'')"
  by (simp add: addEndlessForgeMetadata_def Let_def)






lemma watermark_index_without_content:
  "watermark_index (memory_library []) (post blank_document []) =
     Send_Pdf ''watermarked.pdf''
       (Pdf_Bytes (blank_document\<lparr>getTitle := Some ''Generated PDF'',
                                  getCreator := Some ''Endless Forge'',
                                  getProducer := Some ''Endless Forge PDF API''\<rparr>))"
  by code_simp





lemma undecodable_payload_example:
  "watermark (memory_library [(''http://example.com/logo.png'', ''<html>Not Found</html>'')])
     (post blank_document [(''text'', ''DRAFT''), (''image'', ''http://example.com/logo.png'')]) =
     Status_Json 500 ''The input is not a PNG file!''"
  by code_simp






section \<open>Properties of the provenance stamper\<close>

lemma write_fields_untouched:
  "provided None f d = d" "provided (Some []) f d = d" "v \<noteq> [] \<Longrightarrow> provided (Some v) f d = f v d"
  by (simp_all add: provided_def truthy_def to_string_def)

lemma provided_cases:
  "provided v f d = (if truthy v then f (to_string v) d else d)"
  by (simp add: provided_def)




lemma metadata_set_loaded:
  "files_pdf req = Some file \<Longrightarrow> load L True (buffer file) = Inr d \<Longrightarrow>
     metadata_set L req = Send_Pdf ''metadata-updated.pdf'' (save L (write_fields L req d))"
  by (simp add: metadata_set_def)


lemma stamper_reference_error_example:
  "addEndlessForgeMetadata (blank_document\<lparr>trailer := Trailer None\<rparr>) =
     Inl (ReferenceError ''infoDictRef is not defined'')"
  "watermark (memory_library []) (post (blank_document\<lparr>trailer := Trailer None\<rparr>) [(''text'', ''DRAFT'')]) =
     Status_Json 500 ''infoDictRef is not defined''"
  by code_simp+





section \<open>Properties of the metadata writer\<close>

lemma write_fields_eq:
  "write_fields L req d =
     provided (field req ''modDate'') (\<lambda>v. setModificationDate (new_Date L v))
      (provided (field req ''creationDate'') (\<lambda>v. setCreationDate (new_Date L v))
        (provided (field req ''producer'') setProducer
          (provided (field req ''creator'') setCreator
            (provided (field req ''keywords'') (\<lambda>v. setKeywords (map trim (split_on CHR '','' v)))
              (provided (field req ''subject'') setSubject
                (provided (field req ''author'') setAuthor
                  (provided (field req ''title'') setTitle d)))))))"
  by (simp add: write_fields_def)

lemmas setter_defs = setTitle_def setAuthor_def setSubject_def setKeywords_def setCreator_def
  setProducer_def setCreationDate_def setModificationDate_def

lemma written_fields:
  "getTitle (write_fields L req d) =
     (if truthy (field req ''title'') then field req ''title'' else getTitle d)"
  "getAuthor (write_fields L req d) =
     (if truthy (field req ''author'') then field req ''author'' else getAuthor d)"
  "getSubject (write_fields L req d) =
     (if truthy (field req ''subject'') then field req ''subject'' else getSubject d)"
  "getKeywords (write_fields L req d) =
     (if truthy (field req ''keywords'')
      then Some (join_space (map trim (split_on CHR '','' (to_string (field req ''keywords'')))))
      else getKeywords d)"
  "getCreator (write_fields L req d) =
     (if truthy (field req ''creator'') then field req ''creator'' else getCreator d)"
  "getProducer (write_fields L req d) =
     (if truthy (field req ''producer'') then field req ''producer'' else getProducer d)"
  "getCreationDate (write_fields L req d) =
     (if truthy (field req ''creationDate'')
      then Some (new_Date L (to_string (field req ''creationDate'')))
      else getCreationDate d)"
  "getModificationDate (write_fields L req d) =
     (if truthy (field req ''modDate'')
      then Some (new_Date L (to_string (field req ''modDate'')))
      else getModificationDate d)"
  by (simp_all add: write_fields_eq provided_cases setter_defs truthy_def to_string_def
        split: option.splits)

lemma write_fields_context:
  "trailer (write_fields L req d) = trailer d"
  "objects (write_fields L req d) = objects d"
  "getPages (write_fields L req d) = getPages d"
  by (simp_all add: write_fields_eq provided_cases setter_defs)

lemma trim_nonempty_truthy: "trim v \<noteq> [] \<Longrightarrow> truthy (Some v)"
  by (cases v) (auto simp: trim_def truthy_def)

lemma trimmed_nonempty_is_written:
  "field req ''title'' = Some v \<Longrightarrow> trim v \<noteq> [] \<Longrightarrow> getTitle (write_fields L req d) = Some v"
  by (simp add: written_fields trim_nonempty_truthy)

lemma write_fields_index_misses:
  "getCreator (write_fields_index (post blank_document [(''creator'', ''Ada'')]) blank_document) = None"
  "getKeywords (write_fields_index (post blank_document [(''keywords'', ''a, b'')]) blank_document) = Some ''a  b''"
  "getKeywords (write_fields (memory_library []) (post blank_document [(''keywords'', ''a, b'')]) blank_document) = Some ''a b''"
  by code_simp+

text \<open>
  C7 as stated: a field counts as present when it is non-empty after trimming, and a
  field that is not present leaves the document's value untouched. The handler tests the
  raw string, so a title of two spaces, empty after trimming, replaces the title.
\<close>

theorem whitespace_title_counterexample:
  "trim ''  '' = [] \<and>
   metadata_set (memory_library []) (post thesis_document [(''title'', ''  '')]) =
     Send_Pdf ''metadata-updated.pdf'' (Pdf_Bytes (thesis_document\<lparr>getTitle := Some ''  ''\<rparr>))"
  by code_simp

text \<open>
  C7 as amended, for the longer file: each of title, author, subject, keywords, creator,
  producer, creationDate and modDate overwrites the document's value when the field is
  a non-empty string (untrimmed: white space alone counts, and the value is written as
  it is), the keywords being split on commas, each token trimmed, and the dates read by
  \<^verbatim>\<open>new Date\<close>; an absent or empty field leaves the value untouched.
  (\<^verbatim>\<open>src/index.js\<close> writes only title, author, subject, keywords and producer, and
  does not trim the keyword tokens: \<open>write_fields_index_misses\<close>.)
\<close>

theorem metadata_fields_written:
  assumes "files_pdf req = Some file" and "load L True (buffer file) = Inr d"
  shows "\<exists>d'. metadata_set L req = Send_Pdf ''metadata-updated.pdf'' (save L d')
     \<and> getTitle d' = (if truthy (field req ''title'') then field req ''title'' else getTitle d)
     \<and> getAuthor d' = (if truthy (field req ''author'') then field req ''author'' else getAuthor d)
     \<and> getSubject d' = (if truthy (field req ''subject'') then field req ''subject'' else getSubject d)
     \<and> getKeywords d' =
         (if truthy (field req ''keywords'')
          then Some (join_space (map trim (split_on CHR '','' (to_string (field req ''keywords'')))))
          else getKeywords d)
     \<and> getCreator d' = (if truthy (field req ''creator'') then field req ''creator'' else getCreator d)
     \<and> getProducer d' = (if truthy (field req ''producer'') then field req ''producer'' else getProducer d)
     \<and> getCreationDate d' =
         (if truthy (field req ''creationDate'')
          then Some (new_Date L (to_string (field req ''creationDate'')))
          else getCreationDate d)
     \<and> getModificationDate d' =
         (if truthy (field req ''modDate'')
          then Some (new_Date L (to_string (field req ''modDate'')))
          else getModificationDate d)"
proof (intro exI conjI)
  show "metadata_set L req = Send_Pdf ''metadata-updated.pdf'' (save L (write_fields L req d))"
    using assms by (rule metadata_set_loaded)
qed (rule written_fields)+

theorem metadata_fields_written_witness:
  "files_pdf (post thesis_document [(''author'', ''Ada''), (''keywords'', ''pdf , forms,x'')]) =
     Some \<lparr> buffer = Pdf_Bytes thesis_document, mimetype = ''application/pdf'' \<rparr> \<and>
   load (memory_library []) True (Pdf_Bytes thesis_document) = Inr thesis_document \<and>
   (\<exists>d'. metadata_set (memory_library [])
            (post thesis_document [(''author'', ''Ada''), (''keywords'', ''pdf , forms,x'')]) =
            Send_Pdf ''metadata-updated.pdf'' (Pdf_Bytes d')
        \<and> getTitle d' = Some ''Thesis''
        \<and> getAuthor d' = Some ''Ada''
        \<and> getKeywords d' = Some ''pdf forms x'')"
proof -
  have f: "files_pdf (post thesis_document [(''author'', ''Ada''), (''keywords'', ''pdf , forms,x'')]) =
     Some \<lparr> buffer = Pdf_Bytes thesis_document, mimetype = ''application/pdf'' \<rparr>"
    by (simp add: post_def)
  have l: "load (memory_library []) True
             (buffer \<lparr> buffer = Pdf_Bytes thesis_document, mimetype = ''application/pdf'' \<rparr>) =
           Inr thesis_document"
    by (simp add: memory_library_def)
  have k: "join_space (map trim (split_on CHR '','' ''pdf , forms,x'')) = ''pdf forms x''"
    by code_simp
  have t: "getTitle thesis_document = Some ''Thesis''"
    by (simp add: thesis_document_def)
  from metadata_fields_written [OF f l] f l k t show ?thesis
    by (auto simp: post_def field_def truthy_def to_string_def memory_library_def)
qed

section \<open>Round trip of the title\<close>


lemma or_else_Some_nonempty: "t \<noteq> [] \<Longrightarrow> or_else (Some t) b = Some t"
  by (simp add: or_else_def truthy_def)

lemma keep_Some_nonempty: "t \<noteq> [] \<Longrightarrow> keep (Some t) = Some t"
  by (simp add: keep_def truthy_def)

lemma read_metadata_title:
  assumes "read_metadata d = Inr md" and "getTitle d = Some t" and "t \<noteq> []"
  shows "title md = Some t"
proof -
  from assms(1) obtain created modified where
    "md = \<lparr> title = keep (or_else (getTitle d) (safeGet d ''Title'')),
           author = keep (or_else (getAuthor d) (safeGet d ''Author'')),
           subject = keep (or_else (getSubject d) (safeGet d ''Subject'')),
           keywords_value = keep (or_else (getKeywords d) (safeGet d ''Keywords'')),
           creator = keep (or_else (getCreator d) (safeGet d ''Creator'')),
           producer = keep (or_else (getProducer d) (safeGet d ''Producer'')),
           creationDate = keep created,
           modificationDate = keep modified \<rparr>"
    unfolding read_metadata_def andThen_Inr_iff by auto
  with assms(2,3) show ?thesis
    by (simp add: or_else_Some_nonempty keep_Some_nonempty)
qed

lemma read_metadata_succeeds:
  assumes "date_entry (safeGet d ''CreationDate'') (getCreationDate d) = Inr c"
    and "date_entry (safeGet d ''ModDate'') (getModificationDate d) = Inr m"
  shows "\<exists>md. read_metadata d = Inr md"
  using assms by (simp add: read_metadata_def)

lemma safeGet_write_fields: "safeGet (write_fields L req d) key = safeGet d key"
proof -
  have "infoDict (write_fields L req d) = infoDict d"
    by (cases "trailer d")
       (auto simp: infoDict_def lookup_def write_fields_context split: option.splits pdfobj.splits)
  then show ?thesis
    by (simp add: safeGet_def)
qed

text \<open>
  C9 as stated: for every document, writing a non-empty title and reading the result
  back yields that title. The read renders the two dates before it answers; for a
  document whose creation date accessor yields an invalid date and whose raw entry does
  not parse, rendering throws and the read answers 500 instead of a record.
\<close>

theorem title_round_trip_counterexample:
  "metadata_set (memory_library []) (post undated_document [(''title'', ''Report Q1'')]) =
     Send_Pdf ''metadata-updated.pdf'' (Pdf_Bytes (undated_document\<lparr>getTitle := Some ''Report Q1''\<rparr>))
   \<and> metadata_get (memory_library [])
        (post_bytes (Pdf_Bytes (undated_document\<lparr>getTitle := Some ''Report Q1''\<rparr>))) =
      Status_Json 500 ''Invalid time value''"
  by code_simp

text \<open>
  C9 as amended: for every document whose two date entries, after the write, can be
  resolved (the raw string parses, or the accessor yields nothing or a valid date), and
  with a library that loads back what it saved, writing a non-empty title with the
  metadata-set operation and reading the returned bytes with the metadata-get operation
  yields a record whose title is the title written.
\<close>

theorem title_round_trip:
  assumes "files_pdf req = Some file"
    and "load L True (buffer file) = Inr d"
    and "field req ''title'' = Some t" and "t \<noteq> []"
    and "load L False (save L (write_fields L req d)) = Inr (write_fields L req d)"
    and "date_entry (safeGet (write_fields L req d) ''CreationDate'')
           (getCreationDate (write_fields L req d)) = Inr c"
    and "date_entry (safeGet (write_fields L req d) ''ModDate'')
           (getModificationDate (write_fields L req d)) = Inr m"
    and "files_pdf req' = Some file'"
    and "buffer file' = save L (write_fields L req d)"
  shows "metadata_set L req = Send_Pdf ''metadata-updated.pdf'' (buffer file')
     \<and> (\<exists>r. metadata_get L req' = Json r \<and> title (metadata r) = Some t)"
proof
  show "metadata_set L req = Send_Pdf ''metadata-updated.pdf'' (buffer file')"
    using assms(1,2,9) by (simp add: metadata_set_loaded)
next
  let ?d = "write_fields L req d"
  have t: "getTitle ?d = Some t"
    using assms(3,4) by (simp add: written_fields truthy_def)
  from assms(6,7) obtain md where md: "read_metadata ?d = Inr md"
    using read_metadata_succeeds [of ?d c m] by auto
  from read_metadata_title [OF md t assms(4)] have "title md = Some t" .
  with md assms(5,8,9) show "\<exists>r. metadata_get L req' = Json r \<and> title (metadata r) = Some t"
    by (simp add: metadata_get_def)
qed

theorem title_round_trip_witness:
  "metadata_set (memory_library []) (post thesis_document [(''title'', ''Report Q1'')]) =
     Send_Pdf ''metadata-updated.pdf'' (Pdf_Bytes (thesis_document\<lparr>getTitle := Some ''Report Q1''\<rparr>))
   \<and> (\<exists>r. metadata_get (memory_library [])
              (post_bytes (Pdf_Bytes (thesis_document\<lparr>getTitle := Some ''Report Q1''\<rparr>))) = Json r
          \<and> title (metadata r) = Some ''Report Q1'')"
proof -
  let ?req = "post thesis_document [(''title'', ''Report Q1'')]"
  let ?file = "\<lparr> buffer = Pdf_Bytes thesis_document, mimetype = ''application/pdf'' \<rparr>"
  let ?out = "Pdf_Bytes (thesis_document\<lparr>getTitle := Some ''Report Q1''\<rparr>)"
  let ?file' = "\<lparr> buffer = ?out, mimetype = ''application/pdf'' \<rparr>"
  have w: "write_fields (memory_library []) ?req thesis_document =
             thesis_document\<lparr>getTitle := Some ''Report Q1''\<rparr>"
    by code_simp
  have 1: "files_pdf ?req = Some ?file"
    by (simp add: post_def)
  have 2: "load (memory_library []) True (buffer ?file) = Inr thesis_document"
    by (simp add: memory_library_def)
  have 3: "field ?req ''title'' = Some ''Report Q1''"
    by (simp add: post_def field_def)
  have 4: "''Report Q1'' \<noteq> []"
    by simp
  have 5: "load (memory_library []) False
             (save (memory_library []) (write_fields (memory_library []) ?req thesis_document)) =
           Inr (write_fields (memory_library []) ?req thesis_document)"
    by (simp add: memory_library_def)
  have 6: "date_entry (safeGet (write_fields (memory_library []) ?req thesis_document) ''CreationDate'')
             (getCreationDate (write_fields (memory_library []) ?req thesis_document)) = Inr None"
    unfolding w by code_simp
  have 7: "date_entry (safeGet (write_fields (memory_library []) ?req thesis_document) ''ModDate'')
             (getModificationDate (write_fields (memory_library []) ?req thesis_document)) = Inr None"
    unfolding w by code_simp
  have 8: "files_pdf (post_bytes ?out) = Some ?file'"
    by (simp add: post_bytes_def)
  have 9: "buffer ?file' = save (memory_library []) (write_fields (memory_library []) ?req thesis_document)"
    unfolding w by (simp add: memory_library_def)
  from title_round_trip [OF 1 2 3 4 5 6 7 8 9] show ?thesis
    by simp
qed

section \<open>Properties of the date functions\<close>



































lemma parsePdfDate_rollover_examples:
  "parsePdfDate (Some ''D:20240229235959'') = Inr (Some ''2024-02-29T23:59:59.000Z'')"
  "parsePdfDate (Some ''D:20230000000000'') = Inr (Some ''2022-11-30T00:00:00.000Z'')"
  "parsePdfDate (Some ''D:00230615120000'') = Inr (Some ''1923-06-15T12:00:00.000Z'')"
  "parsePdfDate (Some ''D:99999999999999'') = Inr (Some ''+010007-06-11T04:40:39.000Z'')"
  by code_simp+




end
